theory Spec2Isabelle
  imports Complex_Main
begin

section \<open>JavaScript numbers\<close>

text \<open>
  A JavaScript number is modelled as a real number or one of the three special values
  \<open>Infinity\<close>, \<open>-Infinity\<close> and \<open>NaN\<close>. The arithmetic follows IEEE 754 on the special
  values; on ordinary values it is exact: rounding, overflow of ordinary values to
  \<open>Infinity\<close> and the sign of zero are left out of the model (a zero divisor counts as
  \<open>+0\<close>). An ordinary value is any real, also one beyond the largest double, so a
  statement that a double computation could break by overflow carries range hypotheses
  (\<open>safe_params\<close>, \<open>safe_step\<close> below) under which no intermediate result of the
  code reaches the largest double.
\<close>

datatype number = Num real | PosInfinity | NegInfinity | NaN

instantiation number :: "{plus, minus, uminus, times, inverse}"
begin

fun uminus_number :: "number \<Rightarrow> number" where
  "uminus_number (Num a) = Num (- a)"
| "uminus_number PosInfinity = NegInfinity"
| "uminus_number NegInfinity = PosInfinity"
| "uminus_number NaN = NaN"

fun plus_number :: "number \<Rightarrow> number \<Rightarrow> number" where
  "plus_number NaN b = NaN"
| "plus_number a NaN = NaN"
| "plus_number (Num a) (Num b) = Num (a + b)"
| "plus_number (Num a) PosInfinity = PosInfinity"
| "plus_number (Num a) NegInfinity = NegInfinity"
| "plus_number PosInfinity NegInfinity = NaN"
| "plus_number NegInfinity PosInfinity = NaN"
| "plus_number PosInfinity b = PosInfinity"
| "plus_number NegInfinity b = NegInfinity"

definition minus_number :: "number \<Rightarrow> number \<Rightarrow> number" where
  "minus_number a b = a + (- b)"

fun times_number :: "number \<Rightarrow> number \<Rightarrow> number" where
  "times_number NaN b = NaN"
| "times_number a NaN = NaN"
| "times_number (Num a) (Num b) = Num (a * b)"
| "times_number (Num a) PosInfinity =
     (if a = 0 then NaN else if 0 < a then PosInfinity else NegInfinity)"
| "times_number (Num a) NegInfinity =
     (if a = 0 then NaN else if 0 < a then NegInfinity else PosInfinity)"
| "times_number PosInfinity (Num b) =
     (if b = 0 then NaN else if 0 < b then PosInfinity else NegInfinity)"
| "times_number NegInfinity (Num b) =
     (if b = 0 then NaN else if 0 < b then NegInfinity else PosInfinity)"
| "times_number PosInfinity PosInfinity = PosInfinity"
| "times_number PosInfinity NegInfinity = NegInfinity"
| "times_number NegInfinity PosInfinity = NegInfinity"
| "times_number NegInfinity NegInfinity = PosInfinity"

fun divide_number :: "number \<Rightarrow> number \<Rightarrow> number" where
  "divide_number NaN b = NaN"
| "divide_number a NaN = NaN"
| "divide_number (Num a) (Num b) =
     (if b \<noteq> 0 then Num (a / b)
      else if a = 0 then NaN else if 0 < a then PosInfinity else NegInfinity)"
| "divide_number (Num a) b = Num 0"
| "divide_number PosInfinity (Num b) = (if 0 \<le> b then PosInfinity else NegInfinity)"
| "divide_number NegInfinity (Num b) = (if 0 \<le> b then NegInfinity else PosInfinity)"
| "divide_number a b = NaN"

definition inverse_number :: "number \<Rightarrow> number" where
  "inverse_number a = divide (Num 1) a"

instance ..

end

text \<open>\<open>Math.sin\<close>: the sine of an ordinary value, \<open>NaN\<close> otherwise.\<close>

fun Math_sin :: "number \<Rightarrow> number" where
  "Math_sin (Num a) = Num (sin a)"
| "Math_sin a = NaN"

text \<open>\<open>Math.min\<close> of two arguments: \<open>NaN\<close> if either is \<open>NaN\<close>, the smaller one otherwise.\<close>

fun Math_min :: "number \<Rightarrow> number \<Rightarrow> number" where
  "Math_min NaN b = NaN"
| "Math_min a NaN = NaN"
| "Math_min NegInfinity b = NegInfinity"
| "Math_min a NegInfinity = NegInfinity"
| "Math_min PosInfinity b = b"
| "Math_min a PosInfinity = a"
| "Math_min (Num a) (Num b) = Num (min a b)"


text \<open>The relation \<open>a <= b\<close> of JavaScript: false as soon as one side is \<open>NaN\<close>.\<close>

fun number_le :: "number \<Rightarrow> number \<Rightarrow> bool" where
  "number_le NaN b = False"
| "number_le a NaN = False"
| "number_le NegInfinity b = True"
| "number_le a PosInfinity = True"
| "number_le (Num a) (Num b) = (a \<le> b)"
| "number_le a b = False"

text \<open>The relation \<open>a < b\<close> of JavaScript.\<close>

definition number_less :: "number \<Rightarrow> number \<Rightarrow> bool" where
  "number_less a b = (number_le a b \<and> a \<noteq> b)"

definition isFinite :: "number \<Rightarrow> bool" where
  "isFinite a = (case a of Num r \<Rightarrow> True | _ \<Rightarrow> False)"

section \<open>Parameter values and \<open>parseFloat\<close>\<close>

text \<open>
  The map constants \<open>cRe\<close> and \<open>cIm\<close> reach \<open>algorithmStep\<close> in their parameter
  representation, a number or a string, and are converted there with \<open>parseFloat\<close>.
  \<open>parseFloat\<close> turns its argument into a string, skips leading white space and reads the
  longest prefix that is a decimal literal: an optional sign, then \<open>Infinity\<close> or digits
  with an optional fraction and an optional exponent. No such prefix gives \<open>NaN\<close>. On a
  number the detour through its string gives the number back. A \<open>char\<close> is a code unit
  below 256; the white space among these is 9 to 13, 32 and 160. A literal that rounds
  beyond the largest double reads as \<open>Infinity\<close>.
\<close>

datatype jsval = JNumber number | JString string

definition isWhiteSpace :: "char \<Rightarrow> bool" where
  "isWhiteSpace c = (of_char c \<in> {9, 10, 11, 12, 13, 32, 160 :: nat})"

definition isDigit :: "char \<Rightarrow> bool" where
  "isDigit c = (48 \<le> (of_char c :: nat) \<and> (of_char c :: nat) \<le> 57)"

definition digitsValue :: "string \<Rightarrow> nat" where
  "digitsValue ds = foldl (\<lambda>a c. 10 * a + (of_char c - 48)) 0 ds"

definition scaleByPowerOfTen :: "real \<Rightarrow> int \<Rightarrow> real" where
  "scaleByPowerOfTen m e = (if 0 \<le> e then m * 10 ^ nat e else m / 10 ^ nat (- e))"

text \<open>The value of the longest exponent part at the head of a string, 0 when there is none.\<close>

definition scanExponent :: "string \<Rightarrow> int" where
  "scanExponent s =
     (case s of
        [] \<Rightarrow> 0
      | e # r \<Rightarrow>
          if e = CHR ''e'' \<or> e = CHR ''E'' then
            (case r of
               [] \<Rightarrow> 0
             | sg # r' \<Rightarrow>
                 if sg = CHR ''+'' \<or> sg = CHR ''-'' then
                   (let ds = takeWhile isDigit r' in
                    if ds = [] then 0
                    else if sg = CHR ''-'' then - int (digitsValue ds)
                    else int (digitsValue ds))
                 else
                   (let ds = takeWhile isDigit r in
                    if ds = [] then 0 else int (digitsValue ds)))
          else 0)"

text \<open>
  The number for the exact value of a literal: values from \<open>2^1024 - 2^970\<close> on, half
  way between the largest double and \<open>2^1024\<close>, round to \<open>Infinity\<close>.
\<close>

definition literalValue :: "real \<Rightarrow> number" where
  "literalValue v = (if 2 ^ 1024 - 2 ^ 970 \<le> v then PosInfinity else Num v)"

text \<open>The value of the longest unsigned decimal literal at the head of a string.\<close>

definition scanUnsigned :: "string \<Rightarrow> number option" where
  "scanUnsigned s =
     (if take 8 s = ''Infinity'' then Some PosInfinity
      else
        (let ip = takeWhile isDigit s; r = dropWhile isDigit s in
         case r of
           [] \<Rightarrow> if ip = [] then None else Some (literalValue (real (digitsValue ip)))
         | c # r2 \<Rightarrow>
             if c = CHR ''.'' then
               (let fp = takeWhile isDigit r2; r3 = dropWhile isDigit r2 in
                if ip = [] \<and> fp = [] then None
                else Some (literalValue (scaleByPowerOfTen
                       (real (digitsValue ip) + real (digitsValue fp) / 10 ^ length fp)
                       (scanExponent r3))))
             else if ip = [] then None
             else Some (literalValue (scaleByPowerOfTen (real (digitsValue ip)) (scanExponent r)))))"

definition parseFloat :: "jsval \<Rightarrow> number" where
  "parseFloat v =
     (case v of
        JNumber n \<Rightarrow> n
      | JString s \<Rightarrow>
          (let t = dropWhile isWhiteSpace s in
           case t of
             [] \<Rightarrow> NaN
           | c # r \<Rightarrow>
               if c = CHR ''-'' then (case scanUnsigned r of None \<Rightarrow> NaN | Some n \<Rightarrow> - n)
               else if c = CHR ''+'' then (case scanUnsigned r of None \<Rightarrow> NaN | Some n \<Rightarrow> n)
               else (case scanUnsigned t of None \<Rightarrow> NaN | Some n \<Rightarrow> n)))"

section \<open>Particles and parameters\<close>

text \<open>A \<open>THREE.Vector3\<close> with the two methods the simulation calls.\<close>

record Vector3 =
  vec_x :: number
  vec_y :: number
  vec_z :: number

definition addScaledVector :: "Vector3 \<Rightarrow> Vector3 \<Rightarrow> number \<Rightarrow> Vector3" where
  "addScaledVector this v s =
     \<lparr>vec_x = vec_x this + vec_x v * s,
      vec_y = vec_y this + vec_y v * s,
      vec_z = vec_z this + vec_z v * s\<rparr>"

definition multiplyScalar :: "Vector3 \<Rightarrow> number \<Rightarrow> Vector3" where
  "multiplyScalar this s =
     \<lparr>vec_x = vec_x this * s, vec_y = vec_y this * s, vec_z = vec_z this * s\<rparr>"


text \<open>Each particle: \<open>{ pos, vel, seed }\<close>.\<close>

record particle =
  pos :: Vector3
  vel :: Vector3
  seed :: number

text \<open>
  The live simulation parameters (the \<open>sim\<close> object of \<open>App\<close>). \<open>count\<close> is a
  number that holds a non-negative integer (its slider runs from 200 to 6000 in steps of
  100); it bounds the loop that creates the particles.
\<close>

record params =
  paused :: bool
  count :: nat
  pointSize :: number
  speed :: number
  scale :: number
  attraction :: number
  spawnRadius :: number
  cRe :: jsval
  cIm :: jsval
  resetToken :: number

section \<open>The per-particle update\<close>

definition algorithmStep :: "particle \<Rightarrow> number \<Rightarrow> number \<Rightarrow> params \<Rightarrow> particle" where
  "algorithmStep p t dt ps =
     (let cRe' = parseFloat (cRe ps);
          cIm' = parseFloat (cIm ps);
          x = vec_x (pos p) / scale ps;
          y = vec_y (pos p) / scale ps;
          xNew = x * x - y * y + cRe';
          yNew = Num 2 * x * y + cIm';
          x = xNew;
          y = yNew;
          p = p\<lparr>pos := (pos p)\<lparr>vec_x := x * scale ps\<rparr>\<rparr>;
          p = p\<lparr>pos := (pos p)\<lparr>vec_y := y * scale ps\<rparr>\<rparr>;
          p = p\<lparr>pos := (pos p)\<lparr>vec_z := Math_sin (t * Num 0.5 + seed p) * scale ps * Num 0.3\<rparr>\<rparr>;
          p = p\<lparr>vel := (vel p)\<lparr>vec_x := vec_x (vel p) + - vec_x (pos p) * attraction ps * dt\<rparr>\<rparr>;
          p = p\<lparr>vel := (vel p)\<lparr>vec_y := vec_y (vel p) + - vec_y (pos p) * attraction ps * dt\<rparr>\<rparr>;
          p = p\<lparr>vel := (vel p)\<lparr>vec_z := vec_z (vel p) + - vec_z (pos p) * attraction ps * dt\<rparr>\<rparr>;
          p = p\<lparr>pos := addScaledVector (pos p) (vel p) (dt * speed ps)\<rparr>;
          p = p\<lparr>vel := multiplyScalar (vel p) (Num 0.96)\<rparr>
      in p)"

section \<open>The \<open>Particles\<close> component\<close>

text \<open>
  The transform that \<open>Object3D.updateMatrix\<close> composes from a position, the identity
  rotation and a scale, kept as its two variable parts.
\<close>

record Matrix4 =
  m_position :: Vector3
  m_scale :: Vector3

record Object3D =
  o_position :: Vector3
  o_scale :: Vector3
  o_matrix :: Matrix4

definition setScalar :: "number \<Rightarrow> Vector3" where
  "setScalar s = \<lparr>vec_x = s, vec_y = s, vec_z = s\<rparr>"

definition updateMatrix :: "Object3D \<Rightarrow> Object3D" where
  "updateMatrix d = d\<lparr>o_matrix := \<lparr>m_position = o_position d, m_scale = o_scale d\<rparr>\<rparr>"

text \<open>
  The instanced mesh holds one transform per instance; \<open>setMatrixAt\<close> writes slot \<open>i\<close> of
  the underlying typed array, where a write past the end is dropped.
\<close>

record InstancedMesh =
  instanceMatrix :: "Matrix4 list"
  needsUpdate :: bool

definition setMatrixAt :: "InstancedMesh \<Rightarrow> nat \<Rightarrow> Matrix4 \<Rightarrow> InstancedMesh" where
  "setMatrixAt m i mat = m\<lparr>instanceMatrix := (instanceMatrix m)[i := mat]\<rparr>"

text \<open>
  A JavaScript array is an object: \<open>array_id\<close> tells one array from another, \<open>elems\<close> is
  its content. Mutating a particle of the pool changes \<open>elems\<close> and keeps \<open>array_id\<close>.
\<close>

record particle_array =
  array_id :: nat
  elems :: "particle list"

text \<open>
  The state of one mounted \<open>Particles\<close> component: its refs (\<open>particles\<close>, \<open>clock\<close>,
  \<open>meshRef\<close>), the memoised \<open>dummy\<close>, the dependency list that React recorded for the
  effect at the last render (\<open>None\<close> before the first one), the source behind
  \<open>Math.random\<close> (call number \<open>n\<close> returns \<open>random_source n\<close>) and the counter that
  names newly allocated arrays.
\<close>

record component =
  particles_current :: particle_array
  clock_current :: number
  dummy :: Object3D
  meshRef_current :: InstancedMesh
  effect_deps :: "(nat \<times> number \<times> number) option"
  random_source :: "nat \<Rightarrow> real"
  random_calls :: nat
  next_array_id :: nat

definition Math_random :: "component \<Rightarrow> number \<times> component" where
  "Math_random st =
     (Num (random_source st (random_calls st)), st\<lparr>random_calls := Suc (random_calls st)\<rparr>)"

subsection \<open>The effect: (re)initialise the particles\<close>

function init_loop :: "nat \<Rightarrow> nat \<Rightarrow> params \<Rightarrow> particle list \<Rightarrow> component
    \<Rightarrow> particle list \<times> component" where
  "init_loop i cnt ps temp st =
     (if i < cnt then
        (let (r1, st) = Math_random st;
             (r2, st) = Math_random st;
             (r3, st) = Math_random st;
             pos = \<lparr>vec_x = (r1 - Num 0.5) * spawnRadius ps * Num 2,
                    vec_y = (r2 - Num 0.5) * spawnRadius ps * Num 2,
                    vec_z = (r3 - Num 0.5) * spawnRadius ps * Num 2\<rparr>;
             vel = \<lparr>vec_x = Num 0, vec_y = Num 0, vec_z = Num 0\<rparr>;
             (r4, st) = Math_random st
         in init_loop (Suc i) cnt ps (temp @ [\<lparr>pos = pos, vel = vel, seed = r4 * Num 1000\<rparr>]) st)
      else (temp, st))"
  by pat_completeness auto
termination
  by (relation "measure (\<lambda>(i, cnt, ps, temp, st). cnt - i)") auto

definition effect :: "nat \<Rightarrow> params \<Rightarrow> component \<Rightarrow> component" where
  "effect cnt ps st =
     (let temp_id = next_array_id st;
          st = st\<lparr>next_array_id := Suc temp_id\<rparr>;
          (temp, st) = init_loop 0 cnt ps [] st
      in st\<lparr>particles_current := \<lparr>array_id = temp_id, elems = temp\<rparr>\<rparr>)"

text \<open>
  One render of \<open>Particles\<close> with the props \<open>count\<close> and \<open>params\<close>. \<open>useEffect\<close> runs the
  effect after the first render and after every render whose dependency list
  \<open>[count, params.spawnRadius, params.resetToken]\<close> differs from the recorded one.
\<close>

definition render :: "nat \<Rightarrow> params \<Rightarrow> component \<Rightarrow> component" where
  "render cnt ps st =
     (let deps = (cnt, spawnRadius ps, resetToken ps) in
      if effect_deps st = Some deps then st
      else effect cnt ps (st\<lparr>effect_deps := Some deps\<rparr>))"

text \<open>\<open>PatternSimulator\<close> renders \<open>Particles\<close> with \<open>count = params.count\<close>.\<close>

definition PatternSimulator :: "params \<Rightarrow> component \<Rightarrow> component" where
  "PatternSimulator ps st = render (count ps) ps st"

text \<open>
  Mounting: \<open>useRef([])\<close> allocates the first, empty array, the clock starts at 0, the
  dummy is a new \<open>Object3D\<close>; then the first render happens.
\<close>

definition mount :: "(nat \<Rightarrow> real) \<Rightarrow> InstancedMesh \<Rightarrow> params \<Rightarrow> component" where
  "mount rnd m ps =
     PatternSimulator ps
       \<lparr>particles_current = \<lparr>array_id = 0, elems = []\<rparr>,
        clock_current = Num 0,
        dummy = \<lparr>o_position = setScalar (Num 0), o_scale = setScalar (Num 1),
                 o_matrix = \<lparr>m_position = setScalar (Num 0), m_scale = setScalar (Num 1)\<rparr>\<rparr>,
        meshRef_current = m,
        effect_deps = None,
        random_source = rnd,
        random_calls = 0,
        next_array_id = 1\<rparr>"

subsection \<open>The frame callback\<close>

definition frame_body :: "nat \<Rightarrow> number \<Rightarrow> number \<Rightarrow> params \<Rightarrow> component \<Rightarrow> component" where
  "frame_body i t dt ps st =
     (let p = elems (particles_current st) ! i;
          p = algorithmStep p t dt ps;
          st = st\<lparr>particles_current :=
                 (particles_current st)\<lparr>elems := (elems (particles_current st))[i := p]\<rparr>\<rparr>;
          st = st\<lparr>dummy := (dummy st)\<lparr>o_position := pos p\<rparr>\<rparr>;
          st = st\<lparr>dummy := (dummy st)\<lparr>o_scale := setScalar (pointSize ps)\<rparr>\<rparr>;
          st = st\<lparr>dummy := updateMatrix (dummy st)\<rparr>;
          st = st\<lparr>meshRef_current := setMatrixAt (meshRef_current st) i (o_matrix (dummy st))\<rparr>
      in st)"

function frame_loop :: "nat \<Rightarrow> number \<Rightarrow> number \<Rightarrow> params \<Rightarrow> component \<Rightarrow> component" where
  "frame_loop i t dt ps st =
     (if i < length (elems (particles_current st))
      then frame_loop (Suc i) t dt ps (frame_body i t dt ps st)
      else st)"
  by pat_completeness auto
termination
  by (relation "measure (\<lambda>(i, t, dt, ps, st). length (elems (particles_current st)) - i)")
    (auto simp: frame_body_def Let_def)

definition useFrame :: "number \<Rightarrow> params \<Rightarrow> component \<Rightarrow> component" where
  "useFrame delta ps st =
     (if paused ps then st
      else
        (let st = st\<lparr>clock_current := clock_current st + delta\<rparr>;
             t = clock_current st;
             dt = Math_min delta (Num 0.033);
             st = frame_loop 0 t dt ps st;
             st = st\<lparr>meshRef_current := (meshRef_current st)\<lparr>needsUpdate := True\<rparr>\<rparr>
         in st))"

text \<open>Consecutive frames, each with its delta and the parameters live at that frame.\<close>

fun frames :: "(number \<times> params) list \<Rightarrow> component \<Rightarrow> component" where
  "frames [] st = st"
| "frames ((delta, ps) # fs) st = frames fs (useFrame delta ps st)"

section \<open>Stages, repeated updates and the safe range\<close>










text \<open>The \<open>n\<close>-th particle that the effect creates when \<open>Math.random\<close> has been called
  \<open>c\<close> times before: four calls per particle, x, y, z and the seed in this order.\<close>

definition spawned :: "params \<Rightarrow> (nat \<Rightarrow> real) \<Rightarrow> nat \<Rightarrow> nat \<Rightarrow> particle" where
  "spawned ps rnd c n =
     \<lparr>pos = \<lparr>vec_x = (Num (rnd (c + 4 * n)) - Num 0.5) * spawnRadius ps * Num 2,
              vec_y = (Num (rnd (c + 4 * n + 1)) - Num 0.5) * spawnRadius ps * Num 2,
              vec_z = (Num (rnd (c + 4 * n + 2)) - Num 0.5) * spawnRadius ps * Num 2\<rparr>,
      vel = \<lparr>vec_x = Num 0, vec_y = Num 0, vec_z = Num 0\<rparr>,
      seed = Num (rnd (c + 4 * n + 3)) * Num 1000\<rparr>"

section \<open>Sample inputs\<close>

text \<open>The initial parameters of \<open>App\<close>, with a population of two.\<close>

definition sample_params :: params where
  "sample_params =
     \<lparr>paused = False, count = 2, pointSize = Num 0.9, speed = Num 24, scale = Num 24,
      attraction = Num 0.02, spawnRadius = Num 20, cRe = JNumber (Num (- 0.7)),
      cIm = JNumber (Num 0.27), resetToken = Num 0\<rparr>"

definition origin_particle :: particle where
  "origin_particle =
     \<lparr>pos = \<lparr>vec_x = Num 0, vec_y = Num 0, vec_z = Num 0\<rparr>,
      vel = \<lparr>vec_x = Num 0, vec_y = Num 0, vec_z = Num 0\<rparr>,
      seed = Num 0\<rparr>"

definition moving_particle :: particle where
  "moving_particle =
     \<lparr>pos = \<lparr>vec_x = Num 12, vec_y = Num (- 6), vec_z = Num 3\<rparr>,
      vel = \<lparr>vec_x = Num 3, vec_y = Num 0, vec_z = Num (- 4)\<rparr>,
      seed = Num 0\<rparr>"

definition identity_matrix :: Matrix4 where
  "identity_matrix = \<lparr>m_position = setScalar (Num 0), m_scale = setScalar (Num 1)\<rparr>"

definition sample_component :: component where
  "sample_component =
     \<lparr>particles_current = \<lparr>array_id = 1, elems = [origin_particle, moving_particle]\<rparr>,
      clock_current = Num 0,
      dummy = \<lparr>o_position = setScalar (Num 0), o_scale = setScalar (Num 1),
               o_matrix = identity_matrix\<rparr>,
      meshRef_current = \<lparr>instanceMatrix = [identity_matrix, identity_matrix],
                         needsUpdate = False\<rparr>,
      effect_deps = Some (2, Num 20, Num 0),
      random_source = (\<lambda>n. 1 / 2),
      random_calls = 8,
      next_array_id = 2\<rparr>"

text \<open>A second component in another state: other neighbours, another random source,
  dummy, buffer and recorded dependencies; its particle 2 is particle 1 of
  \<open>sample_component\<close>, and the clocks agree.\<close>

definition other_component :: component where
  "other_component =
     \<lparr>particles_current =
        \<lparr>array_id = 7,
         elems = [moving_particle\<lparr>seed := Num 9\<rparr>, origin_particle, moving_particle]\<rparr>,
      clock_current = Num 0,
      dummy = \<lparr>o_position = setScalar (Num 5), o_scale = setScalar (Num 2),
               o_matrix = identity_matrix\<rparr>,
      meshRef_current = \<lparr>instanceMatrix = [identity_matrix], needsUpdate = True\<rparr>,
      effect_deps = Some (3, Num 10, Num 4),
      random_source = (\<lambda>n. 1 / 4),
      random_calls = 100,
      next_array_id = 8\<rparr>"

declare init_loop.simps [simp del] frame_loop.simps [simp del]

section \<open>Facts about the arithmetic\<close>

lemma number_mult_assoc: "(a * b) * c = a * (b * (c::number))"
  by (cases a; cases b; cases c) (auto simp: zero_less_mult_iff mult_less_0_iff not_less)

lemma NaN_absorbs [simp]:
  "NaN + a = NaN" "a + NaN = NaN" "NaN * a = NaN" "a * NaN = NaN"
  "NaN - a = NaN" "a - NaN = NaN" "NaN / a = NaN" "a / NaN = NaN"
  by (cases a; simp add: minus_number_def)+

section \<open>The per-particle update in closed form\<close>

lemma algorithmStep_unfold:
  "algorithmStep p t dt ps =
     (let x = vec_x (pos p) / scale ps;
          y = vec_y (pos p) / scale ps;
          px = (x * x - y * y + parseFloat (cRe ps)) * scale ps;
          py = (Num 2 * x * y + parseFloat (cIm ps)) * scale ps;
          pz = Math_sin (t * Num 0.5 + seed p) * scale ps * Num 0.3;
          vx = vec_x (vel p) + - px * attraction ps * dt;
          vy = vec_y (vel p) + - py * attraction ps * dt;
          vz = vec_z (vel p) + - pz * attraction ps * dt
      in \<lparr>pos = \<lparr>vec_x = px + vx * (dt * speed ps),
                  vec_y = py + vy * (dt * speed ps),
                  vec_z = pz + vz * (dt * speed ps)\<rparr>,
          vel = \<lparr>vec_x = vx * Num 0.96, vec_y = vy * Num 0.96, vec_z = vz * Num 0.96\<rparr>,
          seed = seed p\<rparr>)"
  by (simp add: algorithmStep_def Let_def addScaledVector_def multiplyScalar_def)



lemma mult_one_number [simp]: "a * Num 1 = a" "Num 1 * a = a"
  by (cases a; simp)+

lemma multiplyScalar_one [simp]: "multiplyScalar v (Num 1) = v"
  by (simp add: multiplyScalar_def)


section \<open>The frame loop\<close>

lemma frame_body_elems:
  "elems (particles_current (frame_body i t dt ps st)) =
   (elems (particles_current st))[i := algorithmStep (elems (particles_current st) ! i) t dt ps]"
  by (simp add: frame_body_def Let_def)

lemma frame_body_fields:
  "array_id (particles_current (frame_body i t dt ps st)) = array_id (particles_current st)"
  "clock_current (frame_body i t dt ps st) = clock_current st"
  "effect_deps (frame_body i t dt ps st) = effect_deps st"
  "random_source (frame_body i t dt ps st) = random_source st"
  "random_calls (frame_body i t dt ps st) = random_calls st"
  "next_array_id (frame_body i t dt ps st) = next_array_id st"
  by (simp_all add: frame_body_def Let_def)

lemma frame_loop_elems:
  "elems (particles_current (frame_loop i t dt ps st)) =
   take i (elems (particles_current st)) @
   map (\<lambda>p. algorithmStep p t dt ps) (drop i (elems (particles_current st)))"
proof (induction i t dt ps st rule: frame_loop.induct)
  case (1 i t dt ps st)
  let ?xs = "elems (particles_current st)"
  show ?case
  proof (cases "i < length ?xs")
    case True
    have "elems (particles_current (frame_loop i t dt ps st)) =
          elems (particles_current (frame_loop (Suc i) t dt ps (frame_body i t dt ps st)))"
      using True by (subst frame_loop.simps) simp
    also have "\<dots> = take (Suc i) (?xs[i := algorithmStep (?xs ! i) t dt ps]) @
          map (\<lambda>p. algorithmStep p t dt ps) (drop (Suc i) (?xs[i := algorithmStep (?xs ! i) t dt ps]))"
      using "1.IH" [OF True] by (simp add: frame_body_elems)
    also have "\<dots> = take i ?xs @ map (\<lambda>p. algorithmStep p t dt ps) (drop i ?xs)"
      using True by (simp add: take_Suc_conv_app_nth flip: Cons_nth_drop_Suc)
    finally show ?thesis .
  next
    case False
    then show ?thesis by (subst frame_loop.simps) simp
  qed
qed

lemma frame_loop_fields:
  "array_id (particles_current (frame_loop i t dt ps st)) = array_id (particles_current st) \<and>
   clock_current (frame_loop i t dt ps st) = clock_current st \<and>
   effect_deps (frame_loop i t dt ps st) = effect_deps st \<and>
   random_source (frame_loop i t dt ps st) = random_source st \<and>
   random_calls (frame_loop i t dt ps st) = random_calls st \<and>
   next_array_id (frame_loop i t dt ps st) = next_array_id st"
proof (induction i t dt ps st rule: frame_loop.induct)
  case (1 i t dt ps st)
  show ?case
  proof (cases "i < length (elems (particles_current st))")
    case True
    then show ?thesis
      using "1.IH" [OF True] by (subst (1 2 3 4 5 6) frame_loop.simps) (simp add: frame_body_fields)
  next
    case False
    then show ?thesis by (subst (1 2 3 4 5 6) frame_loop.simps) simp
  qed
qed

lemma useFrame_elems:
  "\<not> paused ps \<Longrightarrow> elems (particles_current (useFrame delta ps st)) =
     map (\<lambda>p. algorithmStep p (clock_current st + delta) (Math_min delta (Num 0.033)) ps)
       (elems (particles_current st))"
  by (simp add: useFrame_def Let_def frame_loop_elems)

lemma useFrame_fields:
  "array_id (particles_current (useFrame delta ps st)) = array_id (particles_current st)"
  "effect_deps (useFrame delta ps st) = effect_deps st"
  "random_source (useFrame delta ps st) = random_source st"
  "random_calls (useFrame delta ps st) = random_calls st"
  "next_array_id (useFrame delta ps st) = next_array_id st"
  by (simp_all add: useFrame_def Let_def frame_loop_fields)

lemma useFrame_clock:
  "clock_current (useFrame delta ps st) =
     (if paused ps then clock_current st else clock_current st + delta)"
  by (simp add: useFrame_def Let_def frame_loop_fields)

text \<open>Every particle that has a slot in the transform buffer gets its new position and
  the uniform scale \<open>pointSize\<close> written there.\<close>

lemma frame_body_buffer:
  "instanceMatrix (meshRef_current (frame_body i t dt ps st)) =
   (instanceMatrix (meshRef_current st))
     [i := \<lparr>m_position = pos (algorithmStep (elems (particles_current st) ! i) t dt ps),
            m_scale = setScalar (pointSize ps)\<rparr>]"
  by (simp add: frame_body_def Let_def updateMatrix_def setMatrixAt_def)

lemma frame_loop_buffer:
  "length (instanceMatrix (meshRef_current (frame_loop i t dt ps st))) =
     length (instanceMatrix (meshRef_current st)) \<and>
   (\<forall>j < length (instanceMatrix (meshRef_current st)).
     instanceMatrix (meshRef_current (frame_loop i t dt ps st)) ! j =
     (if i \<le> j \<and> j < length (elems (particles_current st))
      then \<lparr>m_position = pos (algorithmStep (elems (particles_current st) ! j) t dt ps),
            m_scale = setScalar (pointSize ps)\<rparr>
      else instanceMatrix (meshRef_current st) ! j))"
proof (induction i t dt ps st rule: frame_loop.induct)
  case (1 i t dt ps st)
  show ?case
  proof (cases "i < length (elems (particles_current st))")
    case True
    have unf: "frame_loop i t dt ps st = frame_loop (Suc i) t dt ps (frame_body i t dt ps st)"
      using True by (subst frame_loop.simps) simp
    have eq: "j = i" if "\<not> Suc i \<le> j" "i \<le> j" for j
      using that by simp
    show ?thesis
      unfolding unf using "1.IH" [OF True] True
      by (auto simp add: frame_body_buffer frame_body_elems nth_list_update dest: eq)
  next
    case False
    then show ?thesis by (subst (1 2) frame_loop.simps) auto
  qed
qed

lemma useFrame_buffer:
  assumes "\<not> paused ps" and "j < length (elems (particles_current st))"
    and "j < length (instanceMatrix (meshRef_current st))"
  shows "instanceMatrix (meshRef_current (useFrame delta ps st)) ! j =
     \<lparr>m_position = pos (elems (particles_current (useFrame delta ps st)) ! j),
      m_scale = setScalar (pointSize ps)\<rparr>"
  using assms frame_loop_buffer [of 0 "clock_current st + delta" "Math_min delta (Num 0.033)" ps
      "st\<lparr>clock_current := clock_current st + delta\<rparr>"]
  by (simp add: useFrame_elems) (simp add: useFrame_def Let_def)

section \<open>The per-particle update, step by step\<close>

text \<open>
  C1. The per-particle update is, in this order: the projection of x and y on the plane by
  division by \<open>scale\<close>; one iteration \<open>x' = x*x - y*y + cRe\<close>, \<open>y' = 2*x*y + cIm\<close> (the
  constants read with \<open>parseFloat\<close>); the write-back of \<open>x' * scale\<close> and \<open>y' * scale\<close>
  and the assignment of \<open>sin(t * 0.5 + seed) * scale * 0.3\<close> to z, whatever z was; the
  attraction \<open>velocity += - position * attraction * dt\<close> on the remapped position; the
  integration \<open>position += velocity * dt * speed\<close> with the new velocity; the damping
  \<open>velocity *= 0.96\<close>, a constant that does not involve \<open>dt\<close>. The seed is kept.
\<close>

theorem algorithmStep_stages:
  "algorithmStep p t dt ps =
     (let x = vec_x (pos p) / scale ps;
          y = vec_y (pos p) / scale ps;
          x' = x * x - y * y + parseFloat (cRe ps);
          y' = Num 2 * x * y + parseFloat (cIm ps);
          position = \<lparr>vec_x = x' * scale ps, vec_y = y' * scale ps,
                      vec_z = Math_sin (t * Num 0.5 + seed p) * scale ps * Num 0.3\<rparr>;
          velocity = \<lparr>vec_x = vec_x (vel p) + - vec_x position * attraction ps * dt,
                      vec_y = vec_y (vel p) + - vec_y position * attraction ps * dt,
                      vec_z = vec_z (vel p) + - vec_z position * attraction ps * dt\<rparr>;
          position' = \<lparr>vec_x = vec_x position + vec_x velocity * dt * speed ps,
                       vec_y = vec_y position + vec_y velocity * dt * speed ps,
                       vec_z = vec_z position + vec_z velocity * dt * speed ps\<rparr>;
          velocity' = \<lparr>vec_x = vec_x velocity * Num 0.96,
                       vec_y = vec_y velocity * Num 0.96,
                       vec_z = vec_z velocity * Num 0.96\<rparr>
      in \<lparr>pos = position', vel = velocity', seed = seed p\<rparr>)"
  by (simp add: algorithmStep_def Let_def addScaledVector_def multiplyScalar_def
      number_mult_assoc)

text \<open>
  C10. The result of the per-particle update does not depend on the z component of the
  input position: two particles with the same x, y, velocity and seed are updated to the
  same particle under the same clock, delta and parameters.
\<close>

theorem algorithmStep_ignores_z:
  assumes "vec_x (pos p) = vec_x (pos q)" and "vec_y (pos p) = vec_y (pos q)"
    and "vel p = vel q" and "seed p = seed q"
  shows "algorithmStep p t dt ps = algorithmStep q t dt ps"
  using assms by (simp add: algorithmStep_unfold)

theorem algorithmStep_ignores_z_witness:
  "vec_z (pos moving_particle) \<noteq> vec_z (pos (moving_particle\<lparr>pos := (pos moving_particle)\<lparr>vec_z := Num 100\<rparr>\<rparr>)) \<and>
   algorithmStep moving_particle (Num 1) (Num 0.033) sample_params =
   algorithmStep (moving_particle\<lparr>pos := (pos moving_particle)\<lparr>vec_z := Num 100\<rparr>\<rparr>)
     (Num 1) (Num 0.033) sample_params"
  using algorithmStep_ignores_z [of moving_particle
      "moving_particle\<lparr>pos := (pos moving_particle)\<lparr>vec_z := Num 100\<rparr>\<rparr>"
      "Num 1" "Num 0.033" sample_params]
  by (simp add: moving_particle_def)

section \<open>Frames: pause, clock and determinism\<close>

lemma frames_paused: "list_all (\<lambda>(delta, ps). paused ps) fs \<Longrightarrow> frames fs st = st"
  by (induction fs) (auto simp add: useFrame_def)

text \<open>
  C4. While \<open>params.paused\<close> is true a frame is a no-op, and so is any number of
  consecutive paused frames, whatever their deltas and other parameters: the component
  state is returned as it is, so every particle keeps its position and velocity, the
  clock does not advance and no slot of the transform buffer is written.
\<close>

theorem paused_frames_noop:
  assumes "paused ps" and "list_all (\<lambda>(delta, ps). paused ps) fs"
  shows "useFrame delta ps st = st \<and> frames fs st = st \<and>
     elems (particles_current (frames fs st)) = elems (particles_current st) \<and>
     clock_current (frames fs st) = clock_current st \<and>
     instanceMatrix (meshRef_current (frames fs st)) = instanceMatrix (meshRef_current st)"
  using assms by (simp add: frames_paused useFrame_def)

theorem paused_frames_noop_witness:
  "paused (sample_params\<lparr>paused := True\<rparr>) \<and>
   useFrame (Num 1) (sample_params\<lparr>paused := True\<rparr>) sample_component = sample_component \<and>
   frames [(Num 1, sample_params\<lparr>paused := True\<rparr>),
           (Num 0.016, sample_params\<lparr>paused := True, speed := Num 5\<rparr>),
           (Num 5, sample_params\<lparr>paused := True\<rparr>)] sample_component =
   sample_component"
proof -
  have p: "paused (sample_params\<lparr>paused := True\<rparr>)"
    by simp
  have ps: "list_all (\<lambda>(delta, ps). paused ps)
      [(Num 1, sample_params\<lparr>paused := True\<rparr>),
       (Num 0.016, sample_params\<lparr>paused := True, speed := Num 5\<rparr>),
       (Num 5, sample_params\<lparr>paused := True\<rparr>)]"
    by simp
  show ?thesis
    using p paused_frames_noop [OF p ps, of "Num 1" sample_component]
    by blast
qed

text \<open>
  C2, as the code has it. A frame that is not paused advances the clock by the raw delta
  \<open>d\<close>; only the \<open>dt\<close> of the per-particle update is clamped. The increment is the
  clamped delta \<open>min(d, 0.033)\<close> when \<open>d <= 0.033\<close> and differs from it when
  \<open>d > 0.033\<close>. The clock does not go back
  when \<open>d >= 0\<close>.
\<close>

theorem clock_advances_by_raw_delta:
  "\<not> paused ps \<Longrightarrow>
     clock_current (useFrame delta ps st) = clock_current st + delta \<and>
     (number_le delta (Num 0.033) \<longrightarrow>
        clock_current (useFrame delta ps st) = clock_current st + Math_min delta (Num 0.033)) \<and>
     (number_less (Num 0.033) delta \<and> isFinite (clock_current st) \<longrightarrow>
        clock_current (useFrame delta ps st) \<noteq> clock_current st + Math_min delta (Num 0.033)) \<and>
     (number_le (Num 0) delta \<and> isFinite (clock_current st) \<longrightarrow>
        number_le (clock_current st) (clock_current (useFrame delta ps st)))"
proof (intro conjI impI)
  assume np: "\<not> paused ps"
  then show eq: "clock_current (useFrame delta ps st) = clock_current st + delta"
    by (simp add: useFrame_clock)
  {
    assume "number_le delta (Num 0.033)"
    then have "Math_min delta (Num 0.033) = delta"
      by (cases delta) (simp_all add: min_def)
    with eq show "clock_current (useFrame delta ps st) =
        clock_current st + Math_min delta (Num 0.033)"
      by simp
  }
  {
    assume "number_less (Num 0.033) delta \<and> isFinite (clock_current st)"
    then show "clock_current (useFrame delta ps st) \<noteq>
        clock_current st + Math_min delta (Num 0.033)"
      unfolding eq
      by (cases delta; cases "clock_current st") (auto simp add: isFinite_def number_less_def)
  }
  {
    assume "number_le (Num 0) delta \<and> isFinite (clock_current st)"
    then show "number_le (clock_current st) (clock_current (useFrame delta ps st))"
      unfolding eq by (cases delta; cases "clock_current st") (simp_all add: isFinite_def)
  }
qed

theorem clock_advances_by_raw_delta_witness:
  "\<not> paused sample_params \<and> isFinite (clock_current sample_component) \<and>
   number_le (Num 0.016) (Num 0.033) \<and> number_le (Num 0) (Num 0.016) \<and>
   clock_current (useFrame (Num 0.016) sample_params sample_component) = Num 0.016 \<and>
   number_less (Num 0.033) (Num 1) \<and>
   clock_current (useFrame (Num 1) sample_params sample_component) = Num 1"
  using clock_advances_by_raw_delta [of sample_params "Num 0.016" sample_component]
    clock_advances_by_raw_delta [of sample_params "Num 1" sample_component]
  by (simp add: sample_params_def sample_component_def isFinite_def number_less_def)

theorem clock_not_clamped_counterexample:
  "clock_current (useFrame (Num 1) sample_params sample_component) \<noteq>
   clock_current sample_component + Math_min (Num 1) (Num 0.033)"
  by (simp add: useFrame_clock sample_params_def sample_component_def)

lemma useFrame_nth:
  assumes "\<not> paused ps" and "i < length (elems (particles_current st))"
  shows "elems (particles_current (useFrame delta ps st)) ! i =
     algorithmStep (elems (particles_current st) ! i) (clock_current st + delta)
       (Math_min delta (Num 0.033)) ps"
  using assms by (simp add: useFrame_elems)

text \<open>
  C7. The per-particle update is deterministic. The particle that a frame leaves at a
  place of the pool is determined by the position, velocity and seed of the particle
  there, the clock value, the delta and the parameters the update reads. Two invocations
  in components that differ in everything else (the other particles, the place in the
  pool, the state of \<open>Math.random\<close>, the dummy, the transform buffer, the recorded
  dependencies, the parameters the update does not read) leave the same particle, and
  the update draws no random number.
\<close>

theorem particle_update_deterministic:
  assumes "\<not> paused ps1" and "\<not> paused ps2"
    and "i < length (elems (particles_current st1))"
    and "j < length (elems (particles_current st2))"
    and "pos (elems (particles_current st1) ! i) = pos (elems (particles_current st2) ! j)"
    and "vel (elems (particles_current st1) ! i) = vel (elems (particles_current st2) ! j)"
    and "seed (elems (particles_current st1) ! i) = seed (elems (particles_current st2) ! j)"
    and "clock_current st1 = clock_current st2"
    and "scale ps1 = scale ps2" and "attraction ps1 = attraction ps2"
    and "speed ps1 = speed ps2" and "cRe ps1 = cRe ps2" and "cIm ps1 = cIm ps2"
  shows "elems (particles_current (useFrame delta ps1 st1)) ! i =
         elems (particles_current (useFrame delta ps2 st2)) ! j \<and>
     random_calls (useFrame delta ps1 st1) = random_calls st1 \<and>
     random_source (useFrame delta ps1 st1) = random_source st1"
proof -
  have "elems (particles_current st1) ! i = elems (particles_current st2) ! j"
    using assms(5,6,7) by simp
  moreover have "algorithmStep q t dt ps1 = algorithmStep q t dt ps2" for q t dt
    using assms(9-13) by (simp add: algorithmStep_unfold)
  ultimately show ?thesis
    using assms(8) by (simp add: useFrame_nth assms(1-4) useFrame_fields)
qed

theorem particle_update_deterministic_witness:
  "\<not> paused sample_params \<and>
   \<not> paused (sample_params\<lparr>count := 3, pointSize := Num 2, spawnRadius := Num 10\<rparr>) \<and>
   elems (particles_current sample_component) ! 1 = elems (particles_current other_component) ! 2 \<and>
   random_source sample_component \<noteq> random_source other_component \<and>
   dummy sample_component \<noteq> dummy other_component \<and>
   clock_current sample_component = clock_current other_component \<and>
   elems (particles_current (useFrame (Num 1) sample_params sample_component)) ! 1 =
   elems (particles_current (useFrame (Num 1)
     (sample_params\<lparr>count := 3, pointSize := Num 2, spawnRadius := Num 10\<rparr>) other_component)) ! 2 \<and>
   random_calls (useFrame (Num 1) sample_params sample_component) = 8"
proof -
  have rs: "random_source sample_component \<noteq> random_source other_component"
  proof
    assume "random_source sample_component = random_source other_component"
    then have "random_source sample_component 0 = random_source other_component 0"
      by simp
    then show False
      by (simp add: sample_component_def other_component_def)
  qed
  have du: "dummy sample_component \<noteq> dummy other_component"
    by (simp add: sample_component_def other_component_def setScalar_def)
  note inst = particle_update_deterministic [of sample_params
      "sample_params\<lparr>count := 3, pointSize := Num 2, spawnRadius := Num 10\<rparr>"
      1 sample_component 2 other_component "Num 1"]
  have "elems (particles_current (useFrame (Num 1) sample_params sample_component)) ! 1 =
      elems (particles_current (useFrame (Num 1)
        (sample_params\<lparr>count := 3, pointSize := Num 2, spawnRadius := Num 10\<rparr>)
        other_component)) ! 2 \<and>
    random_calls (useFrame (Num 1) sample_params sample_component) =
      random_calls sample_component \<and>
    random_source (useFrame (Num 1) sample_params sample_component) =
      random_source sample_component"
    by (rule inst) (simp_all add: sample_params_def sample_component_def other_component_def)
  then show ?thesis
    using rs du by (simp add: sample_params_def) (simp add: sample_component_def other_component_def)
qed

section \<open>The particle pool\<close>

lemma spawned_shift: "spawned ps rnd c (Suc k) = spawned ps rnd (c + 4) k"
  by (simp add: spawned_def add.assoc)

lemma init_loop_closed:
  "i \<le> cnt \<Longrightarrow> init_loop i cnt ps temp st =
     (temp @ map (spawned ps (random_source st) (random_calls st)) [0..<cnt - i],
      st\<lparr>random_calls := random_calls st + 4 * (cnt - i)\<rparr>)"
proof (induction "cnt - i" arbitrary: i temp st)
  case 0
  then have "i = cnt" by simp
  then show ?case by (subst init_loop.simps) simp
next
  case (Suc n)
  then have lt: "i < cnt" and n: "n = cnt - Suc i" and le: "Suc i \<le> cnt"
    by simp_all
  let ?st4 = "st\<lparr>random_calls := random_calls st + 4\<rparr>"
  let ?p = "spawned ps (random_source st) (random_calls st) 0"
  have step: "init_loop i cnt ps temp st = init_loop (Suc i) cnt ps (temp @ [?p]) ?st4"
    using lt
    by (subst init_loop.simps) (simp add: Math_random_def spawned_def Let_def numeral_eq_Suc)
  have upt: "[0..<cnt - i] = 0 # map Suc [0..<n]"
    using Suc.hyps(2) by (simp add: upt_conv_Cons map_Suc_upt del: upt_Suc)
  have "init_loop (Suc i) cnt ps (temp @ [?p]) ?st4 =
      ((temp @ [?p]) @ map (spawned ps (random_source ?st4) (random_calls ?st4)) [0..<cnt - Suc i],
       ?st4\<lparr>random_calls := random_calls ?st4 + 4 * (cnt - Suc i)\<rparr>)"
    by (rule Suc.hyps(1) [OF n le])
  also have "\<dots> = (temp @ map (spawned ps (random_source st) (random_calls st)) [0..<cnt - i],
      st\<lparr>random_calls := random_calls st + 4 * (cnt - i)\<rparr>)"
    using Suc.hyps(2) by (simp add: upt n [symmetric] spawned_shift comp_def)
  finally show ?case using step by simp
qed

lemma effect_unfold:
  "effect cnt ps st =
     st\<lparr>next_array_id := Suc (next_array_id st),
        random_calls := random_calls st + 4 * cnt,
        particles_current :=
          \<lparr>array_id = next_array_id st,
           elems = map (spawned ps (random_source st) (random_calls st)) [0..<cnt]\<rparr>\<rparr>"
  by (simp add: effect_def Let_def init_loop_closed)

lemma spawned_bounds:
  assumes rnd: "\<forall>n. 0 \<le> rnd n \<and> rnd n < 1" and R: "spawnRadius ps = Num r" and r: "0 \<le> r"
  shows "number_le (- spawnRadius ps) (vec_x (pos (spawned ps rnd c n))) \<and>
         number_le (vec_x (pos (spawned ps rnd c n))) (spawnRadius ps) \<and>
         number_le (- spawnRadius ps) (vec_y (pos (spawned ps rnd c n))) \<and>
         number_le (vec_y (pos (spawned ps rnd c n))) (spawnRadius ps) \<and>
         number_le (- spawnRadius ps) (vec_z (pos (spawned ps rnd c n))) \<and>
         number_le (vec_z (pos (spawned ps rnd c n))) (spawnRadius ps) \<and>
         vel (spawned ps rnd c n) = \<lparr>vec_x = Num 0, vec_y = Num 0, vec_z = Num 0\<rparr> \<and>
         number_le (Num 0) (seed (spawned ps rnd c n)) \<and>
         number_less (seed (spawned ps rnd c n)) (Num 1000)"
proof -
  have bound: "- r \<le> (u - 1 / 2) * r * 2 \<and> (u - 1 / 2) * r * 2 \<le> r" if "0 \<le> u" "u < 1" for u :: real
  proof -
    have a: "0 \<le> u * r" using that r by simp
    have b: "0 \<le> (1 - u) * r" using that r by simp
    show ?thesis using a b by (simp add: algebra_simps)
  qed
  have x: "- r \<le> (rnd (c + 4 * n) - 1 / 2) * r * 2 \<and> (rnd (c + 4 * n) - 1 / 2) * r * 2 \<le> r"
    using rnd by (intro bound) auto
  have y: "- r \<le> (rnd (c + 4 * n + 1) - 1 / 2) * r * 2 \<and>
      (rnd (c + 4 * n + 1) - 1 / 2) * r * 2 \<le> r"
    using rnd by (intro bound) auto
  have z: "- r \<le> (rnd (c + 4 * n + 2) - 1 / 2) * r * 2 \<and>
      (rnd (c + 4 * n + 2) - 1 / 2) * r * 2 \<le> r"
    using rnd by (intro bound) auto
  have s: "0 \<le> rnd (c + 4 * n + 3) \<and> rnd (c + 4 * n + 3) < 1"
    using rnd by auto
  show ?thesis
    using x y z s by (simp add: spawned_def R minus_number_def number_less_def)
qed

text \<open>
  C5. After a rebuild with population count \<open>cnt\<close> and an ordinary spawn radius
  \<open>R >= 0\<close>, the pool holds exactly \<open>cnt\<close> particles; each has its position within
  \<open>[-R, R]\<close> on every axis, the zero vector as velocity and a seed in \<open>[0, 1000)\<close>.
  \<open>Math.random\<close> returns values in \<open>[0, 1)\<close>.
\<close>

theorem rebuild_initialises_pool:
  assumes "\<forall>n. 0 \<le> random_source st n \<and> random_source st n < 1"
    and "spawnRadius ps = Num r" and "0 \<le> r"
  shows "length (elems (particles_current (effect cnt ps st))) = cnt \<and>
    (\<forall>p \<in> set (elems (particles_current (effect cnt ps st))).
       number_le (- spawnRadius ps) (vec_x (pos p)) \<and> number_le (vec_x (pos p)) (spawnRadius ps) \<and>
       number_le (- spawnRadius ps) (vec_y (pos p)) \<and> number_le (vec_y (pos p)) (spawnRadius ps) \<and>
       number_le (- spawnRadius ps) (vec_z (pos p)) \<and> number_le (vec_z (pos p)) (spawnRadius ps) \<and>
       vel p = \<lparr>vec_x = Num 0, vec_y = Num 0, vec_z = Num 0\<rparr> \<and>
       number_le (Num 0) (seed p) \<and> number_less (seed p) (Num 1000))"
  using spawned_bounds [OF assms] by (auto simp add: effect_unfold)

theorem rebuild_initialises_pool_witness:
  "(\<forall>n. 0 \<le> random_source sample_component n \<and> random_source sample_component n < 1) \<and>
   spawnRadius sample_params = Num 20 \<and>
   length (elems (particles_current (effect 2 sample_params sample_component))) = 2 \<and>
   vel (elems (particles_current (effect 2 sample_params sample_component)) ! 1) =
     \<lparr>vec_x = Num 0, vec_y = Num 0, vec_z = Num 0\<rparr> \<and>
   number_le (vec_x (pos (elems (particles_current (effect 2 sample_params sample_component)) ! 1)))
     (Num 20)"
proof -
  have rnd: "\<forall>n. 0 \<le> random_source sample_component n \<and> random_source sample_component n < 1"
    by (simp add: sample_component_def)
  have R: "spawnRadius sample_params = Num 20"
    by (simp add: sample_params_def)
  note inst = rebuild_initialises_pool [OF rnd R, of 2]
  have len: "length (elems (particles_current (effect 2 sample_params sample_component))) = 2"
    using inst by simp
  then have "elems (particles_current (effect 2 sample_params sample_component)) ! 1
      \<in> set (elems (particles_current (effect 2 sample_params sample_component)))"
    by simp
  with inst rnd R len show ?thesis by (simp add: R)
qed

lemma render_same:
  "effect_deps st = Some (cnt, spawnRadius ps, resetToken ps) \<Longrightarrow> render cnt ps st = st"
  by (simp add: render_def)

lemma render_changed:
  "effect_deps st \<noteq> Some (cnt, spawnRadius ps, resetToken ps) \<Longrightarrow>
   render cnt ps st =
     st\<lparr>effect_deps := Some (cnt, spawnRadius ps, resetToken ps),
        next_array_id := Suc (next_array_id st),
        random_calls := random_calls st + 4 * cnt,
        particles_current :=
          \<lparr>array_id = next_array_id st,
           elems = map (spawned ps (random_source st) (random_calls st)) [0..<cnt]\<rparr>\<rparr>"
  by (simp add: render_def effect_unfold)

lemma render_deps: "effect_deps (render cnt ps st) = Some (cnt, spawnRadius ps, resetToken ps)"
  by (cases "effect_deps st = Some (cnt, spawnRadius ps, resetToken ps)")
    (simp_all add: render_same render_changed)

lemma mount_builds:
  "particles_current (mount rnd m ps) =
     \<lparr>array_id = 1, elems = map (spawned ps rnd 0) [0..<count ps]\<rparr> \<and>
   effect_deps (mount rnd m ps) = Some (count ps, spawnRadius ps, resetToken ps) \<and>
   array_id (particles_current (mount rnd m ps)) < next_array_id (mount rnd m ps)"
  by (simp add: mount_def PatternSimulator_def render_changed)

lemma useFrame_length:
  "length (elems (particles_current (useFrame delta ps st))) = length (elems (particles_current st))"
  by (cases "paused ps") (simp_all add: useFrame_elems, simp add: useFrame_def)

text \<open>
  C3. After a build with the recorded dependencies \<open>(c0, r0, k0)\<close>, a render replaces
  the pool by a new array of freshly initialised particles if and only if the count, the
  spawn radius or the reset token differs from the recorded value. Otherwise the
  component is left as it is; in particular a change of \<open>paused\<close>, \<open>pointSize\<close>,
  \<open>speed\<close>, \<open>attraction\<close>, \<open>cRe\<close> or \<open>cIm\<close> alone never replaces the pool. The
  recorded dependencies are those of the last build. A frame keeps the array, its
  length and the recorded dependencies: the particles are mutated in place.
\<close>

theorem pool_rebuilt_iff_deps_changed:
  assumes "array_id (particles_current st) < next_array_id st"
    and "effect_deps st = Some (c0, r0, k0)"
  shows
    "(array_id (particles_current (render cnt ps st)) \<noteq> array_id (particles_current st)) =
       (cnt \<noteq> c0 \<or> spawnRadius ps \<noteq> r0 \<or> resetToken ps \<noteq> k0) \<and>
     (cnt = c0 \<and> spawnRadius ps = r0 \<and> resetToken ps = k0 \<longrightarrow> render cnt ps st = st) \<and>
     (cnt \<noteq> c0 \<or> spawnRadius ps \<noteq> r0 \<or> resetToken ps \<noteq> k0 \<longrightarrow>
        particles_current (render cnt ps st) =
          \<lparr>array_id = next_array_id st,
           elems = map (spawned ps (random_source st) (random_calls st)) [0..<cnt]\<rparr>) \<and>
     effect_deps (render cnt ps st) = Some (cnt, spawnRadius ps, resetToken ps) \<and>
     array_id (particles_current (render cnt ps st)) < next_array_id (render cnt ps st) \<and>
     PatternSimulator
       (ps\<lparr>paused := a, pointSize := b, speed := c, attraction := d, cRe := e, cIm := f\<rparr>)
       (PatternSimulator ps st) = PatternSimulator ps st \<and>
     array_id (particles_current (useFrame delta ps st)) = array_id (particles_current st) \<and>
     length (elems (particles_current (useFrame delta ps st))) =
       length (elems (particles_current st)) \<and>
     effect_deps (useFrame delta ps st) = effect_deps st \<and>
     next_array_id (useFrame delta ps st) = next_array_id st"
proof (cases "cnt = c0 \<and> spawnRadius ps = r0 \<and> resetToken ps = k0")
  case True
  then have "render cnt ps st = st"
    using assms(2) by (simp add: render_same)
  with True assms show ?thesis
    by (simp add: PatternSimulator_def render_same render_deps useFrame_fields useFrame_length)
next
  case False
  then have "effect_deps st \<noteq> Some (cnt, spawnRadius ps, resetToken ps)"
    using assms(2) by auto
  from render_changed [OF this] False assms show ?thesis
    by (simp add: PatternSimulator_def render_same render_deps useFrame_fields useFrame_length)
qed

theorem pool_rebuilt_iff_deps_changed_witness:
  "array_id (particles_current sample_component) < next_array_id sample_component \<and>
   effect_deps sample_component = Some (2, Num 20, Num 0) \<and>
   render 2 (sample_params\<lparr>speed := Num 5, cRe := JString ''0.1''\<rparr>) sample_component =
     sample_component \<and>
   array_id (particles_current (render 3 sample_params sample_component)) \<noteq>
     array_id (particles_current sample_component) \<and>
   array_id (particles_current (render 2 (sample_params\<lparr>resetToken := Num 1\<rparr>) sample_component)) \<noteq>
     array_id (particles_current sample_component)"
proof -
  have wf: "array_id (particles_current sample_component) < next_array_id sample_component"
    and deps: "effect_deps sample_component = Some (2, Num 20, Num 0)"
    by (simp_all add: sample_component_def)
  note inst = pool_rebuilt_iff_deps_changed [OF wf deps]
  have "render 2 (sample_params\<lparr>speed := Num 5, cRe := JString ''0.1''\<rparr>) sample_component =
      sample_component"
    using inst [of 2 "sample_params\<lparr>speed := Num 5, cRe := JString ''0.1''\<rparr>",
        THEN conjunct2, THEN conjunct1]
    by (simp add: sample_params_def)
  moreover have "array_id (particles_current (render 3 sample_params sample_component)) \<noteq>
      array_id (particles_current sample_component)"
    using inst [of 3 sample_params, THEN conjunct1] by simp
  moreover have "array_id (particles_current
      (render 2 (sample_params\<lparr>resetToken := Num 1\<rparr>) sample_component)) \<noteq>
      array_id (particles_current sample_component)"
    using inst [of 2 "sample_params\<lparr>resetToken := Num 1\<rparr>", THEN conjunct1] by simp
  ultimately show ?thesis using wf deps by simp
qed

section \<open>Ordinary values and the length of a vector\<close>





section \<open>Integration with the clamped delta\<close>







section \<open>Damping without attraction\<close>














section \<open>Map constants that are not numbers\<close>

lemma NaN_cRe:
  "parseFloat (cRe ps) = NaN \<Longrightarrow>
   vec_x (pos (algorithmStep p t dt ps)) = NaN \<and> vec_x (vel (algorithmStep p t dt ps)) = NaN"
  by (simp add: algorithmStep_unfold Let_def)

lemma NaN_cIm:
  "parseFloat (cIm ps) = NaN \<Longrightarrow>
   vec_y (pos (algorithmStep p t dt ps)) = NaN \<and> vec_y (vel (algorithmStep p t dt ps)) = NaN"
  by (simp add: algorithmStep_unfold Let_def)

lemma parseFloat_non_numeric:
  assumes "\<not> isWhiteSpace c" and "\<not> isDigit c"
    and "c \<noteq> CHR ''+''" and "c \<noteq> CHR ''-''" and "c \<noteq> CHR ''.''" and "c \<noteq> CHR ''I''"
  shows "parseFloat (JString (c # s)) = NaN"
  using assms by (simp add: parseFloat_def scanUnsigned_def Let_def)

text \<open>
  C9, as the code has it. Nothing validates the parameters: \<open>algorithmStep\<close> converts
  \<open>cRe\<close> and \<open>cIm\<close> with \<open>parseFloat\<close> at every update and goes on with the result.
  A string that begins with no numeric prefix converts to \<open>NaN\<close>, and a \<open>NaN\<close> for \<open>cRe\<close>
  (\<open>cIm\<close>) makes the x (y) component of the updated position and velocity \<open>NaN\<close>, for
  every particle of the pool in a frame that is not paused.
\<close>

theorem non_numeric_constants_give_NaN:
  "(parseFloat (cRe ps) = NaN \<longrightarrow>
      vec_x (pos (algorithmStep p t dt ps)) = NaN \<and> vec_x (vel (algorithmStep p t dt ps)) = NaN) \<and>
   (parseFloat (cIm ps) = NaN \<longrightarrow>
      vec_y (pos (algorithmStep p t dt ps)) = NaN \<and> vec_y (vel (algorithmStep p t dt ps)) = NaN) \<and>
   (\<not> paused ps \<and> parseFloat (cRe ps) = NaN \<longrightarrow>
      (\<forall>q \<in> set (elems (particles_current (useFrame delta ps st))). vec_x (pos q) = NaN)) \<and>
   (\<not> paused ps \<and> parseFloat (cIm ps) = NaN \<longrightarrow>
      (\<forall>q \<in> set (elems (particles_current (useFrame delta ps st))). vec_y (pos q) = NaN)) \<and>
   (\<not> isWhiteSpace c \<and> \<not> isDigit c \<and> c \<notin> {CHR ''+'', CHR ''-'', CHR ''.'', CHR ''I''} \<longrightarrow>
      parseFloat (JString (c # s)) = NaN)"
proof (intro conjI impI ballI)
  fix q
  assume "\<not> paused ps \<and> parseFloat (cRe ps) = NaN"
    and "q \<in> set (elems (particles_current (useFrame delta ps st)))"
  then obtain q0 where "q = algorithmStep q0 (clock_current st + delta) (Math_min delta (Num 0.033)) ps"
    and "parseFloat (cRe ps) = NaN"
    by (auto simp add: useFrame_elems)
  then show "vec_x (pos q) = NaN"
    by (simp add: NaN_cRe)
next
  fix q
  assume "\<not> paused ps \<and> parseFloat (cIm ps) = NaN"
    and "q \<in> set (elems (particles_current (useFrame delta ps st)))"
  then obtain q0 where "q = algorithmStep q0 (clock_current st + delta) (Math_min delta (Num 0.033)) ps"
    and "parseFloat (cIm ps) = NaN"
    by (auto simp add: useFrame_elems)
  then show "vec_y (pos q) = NaN"
    by (simp add: NaN_cIm)
next
  assume "\<not> isWhiteSpace c \<and> \<not> isDigit c \<and> c \<notin> {CHR ''+'', CHR ''-'', CHR ''.'', CHR ''I''}"
  then show "parseFloat (JString (c # s)) = NaN"
    by (simp add: parseFloat_non_numeric)
qed (simp_all add: NaN_cRe NaN_cIm)

theorem non_numeric_constants_give_NaN_witness:
  "parseFloat (cRe (sample_params\<lparr>cRe := JString ''abc''\<rparr>)) = NaN \<and>
   \<not> paused (sample_params\<lparr>cRe := JString ''abc''\<rparr>) \<and>
   vec_x (pos (algorithmStep moving_particle (Num 1) (Num 0.033)
     (sample_params\<lparr>cRe := JString ''abc''\<rparr>))) = NaN \<and>
   vec_x (vel (algorithmStep moving_particle (Num 1) (Num 0.033)
     (sample_params\<lparr>cRe := JString ''abc''\<rparr>))) = NaN"
proof -
  have n: "parseFloat (cRe (sample_params\<lparr>cRe := JString ''abc''\<rparr>)) = NaN"
    by (simp add: parseFloat_def scanUnsigned_def isWhiteSpace_def isDigit_def)
  have np: "\<not> paused (sample_params\<lparr>cRe := JString ''abc''\<rparr>)"
    by (simp add: sample_params_def)
  from non_numeric_constants_give_NaN [of "sample_params\<lparr>cRe := JString ''abc''\<rparr>"
      moving_particle "Num 1" "Num 0.033", THEN conjunct1] n np
  show ?thesis by blast
qed

theorem non_numeric_cRe_counterexample:
  "parseFloat (cRe (sample_params\<lparr>cRe := JString ''abc''\<rparr>)) = NaN \<and>
   vec_x (pos (elems (particles_current
     (useFrame (Num 0.016) (sample_params\<lparr>cRe := JString ''abc''\<rparr>) sample_component)) ! 0)) = NaN \<and>
   vec_x (pos (elems (particles_current
     (useFrame (Num 0.016) (sample_params\<lparr>cRe := JString ''abc''\<rparr>) sample_component)) ! 1)) = NaN"
proof -
  have n: "parseFloat (cRe (sample_params\<lparr>cRe := JString ''abc''\<rparr>)) = NaN"
    by (simp add: parseFloat_def scanUnsigned_def isWhiteSpace_def isDigit_def)
  have np: "\<not> paused (sample_params\<lparr>cRe := JString ''abc''\<rparr>)"
    by (simp add: sample_params_def)
  show ?thesis
    using n by (simp add: useFrame_elems [OF np] sample_component_def NaN_cRe)
qed

section \<open>The worked scenario\<close>

text \<open>
  One particle at the origin at rest, seed 0, \<open>scale = 24\<close>, \<open>attraction = 0\<close>,
  \<open>speed = 24\<close>, \<open>cRe = -0.7\<close>, \<open>cIm = 0.27\<close>, one update with \<open>dt = 1/30\<close>: the plane
  point \<open>(0, 0)\<close> maps to \<open>(-0.7, 0.27)\<close>, so the position becomes
  \<open>(-16.8, 6.48, sin(t * 0.5) * 7.2)\<close>.
\<close>

lemma scenario_first_step:
  "algorithmStep origin_particle (Num t) (Num (1 / 30))
     (sample_params\<lparr>count := 1, attraction := Num 0\<rparr>) =
   \<lparr>pos = \<lparr>vec_x = Num (- 16.8), vec_y = Num 6.48, vec_z = Num (sin (t * 0.5) * 7.2)\<rparr>,
    vel = \<lparr>vec_x = Num 0, vec_y = Num 0, vec_z = Num 0\<rparr>,
    seed = Num 0\<rparr>"
  by (simp add: algorithmStep_unfold Let_def origin_particle_def sample_params_def
      parseFloat_def minus_number_def)


end
